theory Spec2Isabelle
  imports Complex_Main
begin

section \<open>Scalars: floating-point values with infinities and NaN\<close>

text \<open>
  The tensors of the program hold IEEE-754 floating-point numbers. A scalar is modelled as
  a finite real, plus or minus infinity, or NaN. The special values follow IEEE-754
  (division by zero does not raise for tensors, \<open>0/0\<close> and \<open>inf - inf\<close> are NaN, NaN
  propagates through every operation and every comparison with NaN is false). On finite
  values the operations are those of the reals: rounding and overflow of finite results
  are not modelled, and zero carries no sign (a nonzero finite value divided by zero
  takes the sign of the numerator).
\<close>

datatype fl = Fin real | PInf | NInf | NaN

instantiation fl :: "{zero, one, plus, uminus, minus, times, inverse, ord}"
begin

definition zero_fl :: fl where
  "zero_fl = Fin 0"

definition one_fl :: fl where
  "one_fl = Fin 1"

fun plus_fl :: "fl \<Rightarrow> fl \<Rightarrow> fl" where
  "plus_fl NaN _ = NaN"
| "plus_fl _ NaN = NaN"
| "plus_fl PInf NInf = NaN"
| "plus_fl NInf PInf = NaN"
| "plus_fl PInf _ = PInf"
| "plus_fl _ PInf = PInf"
| "plus_fl NInf _ = NInf"
| "plus_fl _ NInf = NInf"
| "plus_fl (Fin a) (Fin b) = Fin (a + b)"

fun uminus_fl :: "fl \<Rightarrow> fl" where
  "uminus_fl (Fin a) = Fin (- a)"
| "uminus_fl PInf = NInf"
| "uminus_fl NInf = PInf"
| "uminus_fl NaN = NaN"

definition minus_fl :: "fl \<Rightarrow> fl \<Rightarrow> fl" where
  "minus_fl a b = a + (- b)"

fun times_fl :: "fl \<Rightarrow> fl \<Rightarrow> fl" where
  "times_fl NaN _ = NaN"
| "times_fl _ NaN = NaN"
| "times_fl (Fin a) (Fin b) = Fin (a * b)"
| "times_fl (Fin a) PInf = (if a = 0 then NaN else if 0 < a then PInf else NInf)"
| "times_fl (Fin a) NInf = (if a = 0 then NaN else if 0 < a then NInf else PInf)"
| "times_fl PInf (Fin b) = (if b = 0 then NaN else if 0 < b then PInf else NInf)"
| "times_fl NInf (Fin b) = (if b = 0 then NaN else if 0 < b then NInf else PInf)"
| "times_fl PInf PInf = PInf"
| "times_fl PInf NInf = NInf"
| "times_fl NInf PInf = NInf"
| "times_fl NInf NInf = PInf"

fun divide_fl :: "fl \<Rightarrow> fl \<Rightarrow> fl" where
  "divide_fl NaN _ = NaN"
| "divide_fl _ NaN = NaN"
| "divide_fl (Fin a) (Fin b) =
     (if b = 0 then (if a = 0 then NaN else if 0 < a then PInf else NInf)
      else Fin (a / b))"
| "divide_fl (Fin a) PInf = Fin 0"
| "divide_fl (Fin a) NInf = Fin 0"
| "divide_fl PInf (Fin b) = (if 0 \<le> b then PInf else NInf)"
| "divide_fl NInf (Fin b) = (if 0 \<le> b then NInf else PInf)"
| "divide_fl _ _ = NaN"

definition inverse_fl :: "fl \<Rightarrow> fl" where
  "inverse_fl a = divide (Fin 1) a"

fun less_fl :: "fl \<Rightarrow> fl \<Rightarrow> bool" where
  "less_fl NaN _ = False"
| "less_fl _ NaN = False"
| "less_fl (Fin a) (Fin b) = (a < b)"
| "less_fl _ NInf = False"
| "less_fl PInf _ = False"
| "less_fl NInf _ = True"
| "less_fl _ PInf = True"

fun less_eq_fl :: "fl \<Rightarrow> fl \<Rightarrow> bool" where
  "less_eq_fl NaN _ = False"
| "less_eq_fl _ NaN = False"
| "less_eq_fl (Fin a) (Fin b) = (a \<le> b)"
| "less_eq_fl NInf _ = True"
| "less_eq_fl _ PInf = True"
| "less_eq_fl _ _ = False"

instance ..

end

text \<open>\<open>torch.sqrt\<close>: NaN on negative arguments.\<close>

fun fsqrt :: "fl \<Rightarrow> fl" where
  "fsqrt (Fin a) = (if a < 0 then NaN else Fin (sqrt a))"
| "fsqrt PInf = PInf"
| "fsqrt NInf = NaN"
| "fsqrt NaN = NaN"

definition is_finite :: "fl \<Rightarrow> bool" where
  "is_finite a = (case a of Fin _ \<Rightarrow> True | _ \<Rightarrow> False)"


section \<open>One-dimensional tensors\<close>

text \<open>
  A one-dimensional tensor is the list of its entries. \<open>torch.dot\<close> raises a
  \<open>RuntimeError\<close> when the two sizes differ; the sum of the products is taken from
  the left.
\<close>

type_synonym vec = "fl list"

datatype error = RuntimeError | AssertionError | ZeroDivisionError | IndexError | ConfigurationError

definition fsum :: "vec \<Rightarrow> fl" where
  "fsum xs = foldl (+) 0 xs"

definition vdot :: "vec \<Rightarrow> vec \<Rightarrow> fl" where
  "vdot u w = fsum (map2 (*) u w)"

definition dot :: "vec \<Rightarrow> vec \<Rightarrow> error + fl" where
  "dot u w = (if length u = length w then Inr (vdot u w) else Inl RuntimeError)"

definition zeros_like :: "vec \<Rightarrow> vec" where
  "zeros_like b = replicate (length b) 0"

text \<open>A zero-dimensional tensor times a vector, and the entrywise sum and difference
  of two vectors of one size.\<close>

definition smul :: "fl \<Rightarrow> vec \<Rightarrow> vec" where
  "smul c u = map (\<lambda>a. c * a) u"

definition vadd :: "vec \<Rightarrow> vec \<Rightarrow> vec" where
  "vadd u w = map2 (+) u w"

definition vsub :: "vec \<Rightarrow> vec \<Rightarrow> vec" where
  "vsub u w = map2 (-) u w"

section \<open>The conjugate-gradient solver (\<open>common/utils.py\<close>, \<open>conjugate_gradient\<close>)\<close>

text \<open>
  The local variables of the solver at the head of the loop. \<open>cg_trace\<close> records, in
  program order, every call of \<open>f_Ax\<close> (with its argument) and every division (with
  numerator and denominator); no computed value depends on it.
\<close>

datatype cg_event = Call_f_Ax vec | Divide fl fl

record cg_vars =
  cg_x :: vec
  cg_r :: vec
  cg_p :: vec
  cg_rdotr :: fl
  cg_trace :: "cg_event list"

text \<open>
  One pass through the loop body, up to and including \<open>rdotr = newrdotr\<close>. The only
  operation that can raise is \<open>torch.dot(p, z)\<close>, when \<open>f_Ax\<close> returns a vector of
  another size; \<open>x\<close>, \<open>r\<close> and \<open>p\<close> keep the size of \<open>b\<close> throughout
  (lemma \<open>cg_iteration_ok\<close>), so the entrywise operations are on equal sizes.
\<close>

definition cg_iteration :: "(vec \<Rightarrow> vec) \<Rightarrow> cg_vars \<Rightarrow> error + cg_vars" where
  "cg_iteration f_Ax s =
     (let z = f_Ax (cg_p s) in
      case dot (cg_p s) z of
        Inl e \<Rightarrow> Inl e
      | Inr pz \<Rightarrow>
          let v = cg_rdotr s / pz;
              x' = vadd (cg_x s) (smul v (cg_p s));
              r' = vsub (cg_r s) (smul v z);
              newrdotr = vdot r' r';
              mu = newrdotr / cg_rdotr s;
              p' = vadd r' (smul mu (cg_p s))
          in Inr \<lparr>cg_x = x', cg_r = r', cg_p = p', cg_rdotr = newrdotr,
                  cg_trace = cg_trace s @
                    [Call_f_Ax (cg_p s), Divide (cg_rdotr s) pz, Divide newrdotr (cg_rdotr s)]\<rparr>)"

text \<open>\<open>for i in range(n)\<close> with the \<open>break\<close> after the body: \<open>n\<close> passes remain.\<close>

fun cg_loop :: "(vec \<Rightarrow> vec) \<Rightarrow> fl \<Rightarrow> nat \<Rightarrow> cg_vars \<Rightarrow> error + cg_vars" where
  "cg_loop f_Ax residual_tol 0 s = Inr s"
| "cg_loop f_Ax residual_tol (Suc n) s =
     (case cg_iteration f_Ax s of
        Inl e \<Rightarrow> Inl e
      | Inr s' \<Rightarrow>
          if cg_rdotr s' < residual_tol then Inr s'
          else cg_loop f_Ax residual_tol n s')"

definition cg_init :: "vec \<Rightarrow> cg_vars" where
  "cg_init b = \<lparr>cg_x = zeros_like b, cg_r = b, cg_p = b, cg_rdotr = vdot b b, cg_trace = []\<rparr>"

text \<open>The solver's variables when it reaches \<open>return x\<close>; \<open>range\<close> of a negative
  count is empty.\<close>

definition cg_run :: "(vec \<Rightarrow> vec) \<Rightarrow> vec \<Rightarrow> int \<Rightarrow> fl \<Rightarrow> error + cg_vars" where
  "cg_run f_Ax b cg_iters residual_tol = cg_loop f_Ax residual_tol (nat cg_iters) (cg_init b)"

definition conjugate_gradient :: "(vec \<Rightarrow> vec) \<Rightarrow> vec \<Rightarrow> int \<Rightarrow> fl \<Rightarrow> error + vec" where
  "conjugate_gradient f_Ax b cg_iters residual_tol =
     (case cg_run f_Ax b cg_iters residual_tol of
        Inl e \<Rightarrow> Inl e
      | Inr s \<Rightarrow> Inr (cg_x s))"

text \<open>The default arguments \<open>cg_iters=10\<close> and \<open>residual_tol=1e-10\<close>.\<close>

definition cg_iters_default :: int where
  "cg_iters_default = 10"

definition residual_tol_default :: fl where
  "residual_tol_default = Fin (1 / 10 ^ 10)"

definition f_Ax_calls :: "cg_vars \<Rightarrow> vec list" where
  "f_Ax_calls s = concat (map (\<lambda>e. case e of Call_f_Ax u \<Rightarrow> [u] | Divide _ _ \<Rightarrow> []) (cg_trace s))"

subsection \<open>The recurrence as the specification words it\<close>

text \<open>
  The recurrence on the triple \<open>(x, r, p)\<close>: \<open>z = f(p)\<close>,
  \<open>\<alpha> = (r\<cdot>r)/(p\<cdot>z)\<close>, \<open>x += \<alpha>\<cdot>p\<close>, \<open>r -= \<alpha>\<cdot>z\<close>,
  \<open>\<beta> = r_new\<cdot>r_new / r_old\<cdot>r_old\<close>, \<open>p = r_new + \<beta>\<cdot>p\<close>.
\<close>

definition cg_recurrence :: "(vec \<Rightarrow> vec) \<Rightarrow> vec \<times> vec \<times> vec \<Rightarrow> vec \<times> vec \<times> vec" where
  "cg_recurrence f = (\<lambda>(x, r, p).
     let z = f p;
         alpha = vdot r r / vdot p z;
         x_new = vadd x (smul alpha p);
         r_new = vsub r (smul alpha z);
         beta = vdot r_new r_new / vdot r r
     in (x_new, r_new, vadd r_new (smul beta p)))"

text \<open>The triple after \<open>k\<close> iterations, from \<open>x = 0\<close>, \<open>r = p = b\<close>.\<close>

definition cg_iterate :: "(vec \<Rightarrow> vec) \<Rightarrow> vec \<Rightarrow> nat \<Rightarrow> vec \<times> vec \<times> vec" where
  "cg_iterate f b k = (cg_recurrence f ^^ k) (zeros_like b, b, b)"

definition residual :: "vec \<times> vec \<times> vec \<Rightarrow> fl" where
  "residual t = (case t of (x, r, p) \<Rightarrow> vdot r r)"

text \<open>
  The number of iterations made: the first \<open>k\<close> from 1 to \<open>n\<close> after which
  \<open>r\<cdot>r\<close> is below the tolerance, and \<open>n\<close> when there is none.
\<close>

definition cg_stop :: "(vec \<Rightarrow> vec) \<Rightarrow> vec \<Rightarrow> fl \<Rightarrow> nat \<Rightarrow> nat" where
  "cg_stop f b tol n =
     (case find (\<lambda>k. residual (cg_iterate f b k) < tol) [1..<Suc n] of
        Some k \<Rightarrow> k
      | None \<Rightarrow> n)"


section \<open>The natural-gradient step (\<open>algorithms/natural.py\<close>, lines 89 to 104)\<close>

text \<open>
  The parameters of a model are tensors that live in a store and are named by their
  addresses; a model is the list of the addresses of its parameters, in the order of
  \<open>parameters()\<close>. Each tensor is kept flattened (\<open>view(-1)\<close>); its length is its number
  of elements.
\<close>

type_synonym addr = nat

type_synonym store = "addr \<Rightarrow> vec"

text \<open>\<open>torch.nn.utils.parameters_to_vector\<close>: the flattened parameters, concatenated.\<close>

definition parameters_to_vector :: "addr list \<Rightarrow> store \<Rightarrow> vec" where
  "parameters_to_vector params st = concat (map st params)"

text \<open>
  \<open>torch.nn.utils.vector_to_parameters\<close>: every parameter in turn is overwritten with the
  next slice \<open>vec[pointer : pointer + num_param]\<close>, viewed as the parameter;
  \<open>view_as\<close> raises a \<open>RuntimeError\<close> when the slice is too short. The function recurses
  on what is left of the vector after the pointer.
\<close>

fun vector_to_parameters :: "vec \<Rightarrow> addr list \<Rightarrow> store \<Rightarrow> error + store" where
  "vector_to_parameters vec [] st = Inr st"
| "vector_to_parameters vec (param # params) st =
     (let num_param = length (st param);
          slice = take num_param vec
      in if length slice \<noteq> num_param then Inl RuntimeError
         else vector_to_parameters (drop num_param vec) params (st(param := slice)))"

text \<open>A vector times a zero-dimensional tensor (\<open>descent_direction * scale\<close>).\<close>

definition vscale :: "vec \<Rightarrow> fl \<Rightarrow> vec" where
  "vscale u c = map (\<lambda>a. a * c) u"

text \<open>
  The difference of two one-dimensional tensors, with broadcasting: sizes must agree
  unless one of them is 1; otherwise a \<open>RuntimeError\<close>.
\<close>

definition tsub :: "vec \<Rightarrow> vec \<Rightarrow> error + vec" where
  "tsub u w =
     (if length u = length w then Inr (vsub u w)
      else if length w = 1 then Inr (map (\<lambda>a. a - hd w) u)
      else if length u = 1 then Inr (map (\<lambda>c. hd u - c) w)
      else Inl RuntimeError)"

text \<open>The step-size scale of line 101, from \<open>delta\<close> and the value of
  \<open>pol_grad.dot(descent_direction)\<close>.\<close>

definition step_scale :: "fl \<Rightarrow> fl \<Rightarrow> fl" where
  "step_scale delta gx = fsqrt (Fin 2 * delta / (gx + Fin (1 / 10 ^ 8)))"

text \<open>
  Lines 89 to 104 of one iteration. What \<open>natural.py\<close> imports from modules that are not
  among the sources is a parameter: \<open>flat_grad_pol_loss\<close> is the policy gradient
  \<open>flat_grad(pol_loss, policy.parameters())\<close> as a function of the current parameters,
  \<open>fisher_vec_prod\<close> the Fisher-vector product at the current parameters, and \<open>solver\<close>
  the conjugate-gradient solver called with its default arguments. All three read the
  store and do not write it. \<open>policy\<close> is the list of the policy's parameters.
\<close>

definition natural_gradient_step ::
  "(store \<Rightarrow> vec) \<Rightarrow> (store \<Rightarrow> vec \<Rightarrow> vec) \<Rightarrow> ((vec \<Rightarrow> vec) \<Rightarrow> vec \<Rightarrow> error + vec) \<Rightarrow>
   fl \<Rightarrow> addr list \<Rightarrow> store \<Rightarrow> error + store" where
  "natural_gradient_step flat_grad_pol_loss fisher_vec_prod solver delta policy st =
     (let pol_grad = flat_grad_pol_loss st;
          fvp = fisher_vec_prod st
      in case solver fvp pol_grad of
           Inl e \<Rightarrow> Inl e
         | Inr descent_direction \<Rightarrow>
             (case dot pol_grad descent_direction of
                Inl e \<Rightarrow> Inl e
              | Inr gx \<Rightarrow>
                  let scale = step_scale delta gx;
                      descent_step = vscale descent_direction scale
                  in (case tsub (parameters_to_vector policy st) descent_step of
                        Inl e \<Rightarrow> Inl e
                      | Inr new_params \<Rightarrow> vector_to_parameters new_params policy st)))"

text \<open>The solver of \<open>common/utils.py\<close> with its default arguments.\<close>

definition cg_default :: "(vec \<Rightarrow> vec) \<Rightarrow> vec \<Rightarrow> error + vec" where
  "cg_default f_Ax b = conjugate_gradient f_Ax b cg_iters_default residual_tol_default"

section \<open>The explained-variance diagnostic (\<open>common/utils.py\<close>, \<open>explained_variance_1d\<close>)\<close>

text \<open>A tensor with its shape; \<open>dim\<close> is the number of its dimensions.\<close>

datatype tensor = Tensor (shape: "nat list") (elems: vec)

definition dim :: "tensor \<Rightarrow> nat" where
  "dim t = length (shape t)"

text \<open>
  \<open>Tensor.var()\<close> over all entries, with Bessel's correction: the sum of the squared
  deviations from the mean over \<open>max(0, n - 1)\<close>, hence NaN for fewer than two entries.
\<close>

definition mean :: "vec \<Rightarrow> fl" where
  "mean ys = fsum ys / Fin (real (length ys))"

definition var :: "vec \<Rightarrow> fl" where
  "var ys = fsum (map (\<lambda>y. (y - mean ys) * (y - mean ys)) ys) / Fin (real (length ys - 1))"

text \<open>
  \<open>np.isclose(a, c)\<close> with its default tolerances \<open>rtol=1e-5\<close>, \<open>atol=1e-8\<close>:
  \<open>|a - c| <= atol + rtol * |c|\<close> on finite values, equality on infinities, false on NaN.
\<close>

fun isclose :: "fl \<Rightarrow> fl \<Rightarrow> bool" where
  "isclose (Fin a) (Fin c) = (\<bar>a - c\<bar> \<le> 1 / 10 ^ 8 + 1 / 10 ^ 5 * \<bar>c\<bar>)"
| "isclose PInf PInf = True"
| "isclose NInf NInf = True"
| "isclose _ _ = False"

text \<open>Division of Python floats (the values after \<open>.item()\<close>): a zero divisor raises.\<close>

definition py_div :: "fl \<Rightarrow> fl \<Rightarrow> error + fl" where
  "py_div a c = (if c = Fin 0 then Inl ZeroDivisionError else Inr (a / c))"

text \<open>The returned \<open>0\<close> and \<open>1\<close> are Python integers; they are the scalars 0 and 1 here.\<close>

definition explained_variance_1d :: "tensor \<Rightarrow> tensor \<Rightarrow> error + fl" where
  "explained_variance_1d ypred y =
     (if \<not> (dim y = 1 \<and> dim ypred = 1) then Inl AssertionError
      else
        let vary = var (elems y) in
        if isclose vary 0 then
          (if Fin (1 / 10 ^ 8) < var (elems ypred) then Inr 0 else Inr 1)
        else
          case tsub (elems y) (elems ypred) of
            Inl e \<Rightarrow> Inl e
          | Inr d \<Rightarrow>
              (case py_div (var d) (vary + Fin (1 / 10 ^ 8)) of
                 Inl e \<Rightarrow> Inl e
               | Inr q \<Rightarrow> Inr (1 - q)))"


section \<open>The off-policy actor-critic loop (\<open>algorithms/ddpg.py\<close>, \<open>ddpg\<close>)\<close>

text \<open>The keyword arguments of \<open>ddpg\<close> that the main loop reads.\<close>

record ddpg_args =
  total_steps :: int
  gamma :: fl
  replay_size :: int
  polyak :: fl
  start_steps :: int
  epoch :: int
  mb_size :: int
  max_ep_length :: int
  updates_per_step :: real














text \<open>Line 113: \<open>dones[0] = False if ep_length == max_ep_length else dones[0]\<close>, with
  \<open>ep_length\<close> already incremented.\<close>

definition mask_dones :: "ddpg_args \<Rightarrow> int \<Rightarrow> bool list \<Rightarrow> bool list" where
  "mask_dones args ep ds = ds[0 := (if ep = max_ep_length args then False else ds ! 0)]"





section \<open>Auxiliary notions for the proofs\<close>

text \<open>The triple \<open>(x, r, p)\<close> of the solver's variables, and the invariant of its loop:
  the three vectors have the size \<open>n\<close> of \<open>b\<close> and \<open>rdotr\<close> caches \<open>r\<cdot>r\<close>.\<close>

definition cg_triple :: "cg_vars \<Rightarrow> vec \<times> vec \<times> vec" where
  "cg_triple s = (cg_x s, cg_r s, cg_p s)"

definition cg_inv :: "nat \<Rightarrow> cg_vars \<Rightarrow> bool" where
  "cg_inv n s = (length (cg_x s) = n \<and> length (cg_r s) = n \<and> length (cg_p s) = n \<and>
     cg_rdotr s = vdot (cg_r s) (cg_r s))"

text \<open>\<open>cg_stop\<close> from an arbitrary triple.\<close>

definition stop_from :: "(vec \<Rightarrow> vec) \<Rightarrow> fl \<Rightarrow> nat \<Rightarrow> vec \<times> vec \<times> vec \<Rightarrow> nat" where
  "stop_from f tol n t =
     (case find (\<lambda>k. residual ((cg_recurrence f ^^ k) t) < tol) [1..<Suc n] of
        Some k \<Rightarrow> k
      | None \<Rightarrow> n)"

text \<open>Not a negative number: a finite value that is at least 0, plus infinity, or NaN.\<close>

definition not_negative :: "fl \<Rightarrow> bool" where
  "not_negative a = (case a of Fin r \<Rightarrow> 0 \<le> r | PInf \<Rightarrow> True | NInf \<Rightarrow> False | NaN \<Rightarrow> True)"





section \<open>Basic facts about scalars and vectors\<close>

lemma zero_fl_Fin [simp]: "(0::fl) = Fin 0"
  by (simp add: zero_fl_def)

lemma one_fl_Fin [simp]: "(1::fl) = Fin 1"
  by (simp add: one_fl_def)

lemma minus_Fin [simp]: "Fin a - Fin c = Fin (a - c)"
  by (simp add: minus_fl_def)

lemma nan_plus [simp]: "NaN + a = NaN"
  by (cases a) auto

lemma plus_nan [simp]: "a + NaN = NaN"
  by (cases a) auto

lemma nan_times [simp]: "NaN * a = NaN"
  by (cases a) auto

lemma times_nan [simp]: "a * NaN = NaN"
  by (cases a) auto

lemma nan_minus [simp]: "NaN - a = NaN"
  by (simp add: minus_fl_def)

lemma minus_nan [simp]: "a - NaN = NaN"
  by (simp add: minus_fl_def)

lemma nan_divide [simp]: "NaN / a = NaN"
  by (cases a) auto

lemma divide_nan [simp]: "a / NaN = NaN"
  by (cases a) auto

lemma length_smul [simp]: "length (smul c u) = length u"
  by (simp add: smul_def)

lemma length_vadd [simp]: "length (vadd u w) = min (length u) (length w)"
  by (simp add: vadd_def)

lemma length_vsub [simp]: "length (vsub u w) = min (length u) (length w)"
  by (simp add: vsub_def)

lemma length_zeros_like [simp]: "length (zeros_like b) = length b"
  by (simp add: zeros_like_def)

section \<open>The conjugate-gradient solver follows the recurrence\<close>

lemma find_map: "find P (map g xs) = map_option g (find (P \<circ> g) xs)"
  by (induction xs) auto

lemma upt_1_Suc_Suc: "[1..<Suc (Suc n)] = 1 # map Suc [1..<Suc n]"
  by (metis One_nat_def map_Suc_upt upt_conv_Cons zero_less_Suc Suc_less_eq)

lemma upt_0_Suc: "[0..<Suc k] = 0 # map Suc [0..<k]"
  by (simp add: upt_conv_Cons map_Suc_upt del: upt_Suc)

lemma stop_from_0: "stop_from f tol 0 t = 0"
  by (simp add: stop_from_def)

lemma stop_from_Suc:
  "stop_from f tol (Suc n) t =
     (if residual (cg_recurrence f t) < tol then 1
      else Suc (stop_from f tol n (cg_recurrence f t)))"
  unfolding stop_from_def upt_1_Suc_Suc
  by (simp add: find_map comp_def funpow_swap1 split: option.splits)

lemma stop_from_le: "stop_from f tol m t \<le> m"
  by (induction m arbitrary: t) (simp_all add: stop_from_0 stop_from_Suc)

lemma cg_stop_from: "cg_stop f b tol n = stop_from f tol n (cg_triple (cg_init b))"
  by (simp add: cg_stop_def stop_from_def cg_iterate_def cg_triple_def cg_init_def)

lemma cg_inv_init: "cg_inv (length b) (cg_init b)"
  by (simp add: cg_inv_def cg_init_def)

lemma cg_inv_residual: "cg_inv n s \<Longrightarrow> cg_rdotr s = residual (cg_triple s)"
  by (simp add: cg_inv_def residual_def cg_triple_def)

text \<open>One pass of the body is one step of the recurrence; it keeps the sizes, and it
  raises nothing when \<open>f_Ax\<close> answers with a vector of the right size.\<close>

lemma cg_iteration_ok:
  assumes "cg_inv n s" and "length (f (cg_p s)) = n"
  shows "\<exists>s'. cg_iteration f s = Inr s' \<and> cg_inv n s' \<and>
           cg_triple s' = cg_recurrence f (cg_triple s) \<and>
           f_Ax_calls s' = f_Ax_calls s @ [cg_p s]"
  using assms
  by (simp add: cg_iteration_def dot_def cg_inv_def cg_triple_def cg_recurrence_def
      Let_def f_Ax_calls_def)

lemma cg_loop_ok:
  assumes shape: "\<forall>u. length u = n \<longrightarrow> length (f u) = n" and inv: "cg_inv n s"
  shows "\<exists>s'. cg_loop f tol m s = Inr s' \<and> cg_inv n s' \<and>
           cg_triple s' = (cg_recurrence f ^^ stop_from f tol m (cg_triple s)) (cg_triple s) \<and>
           f_Ax_calls s' = f_Ax_calls s @
             map (\<lambda>k. snd (snd ((cg_recurrence f ^^ k) (cg_triple s))))
               [0..<stop_from f tol m (cg_triple s)]"
  using inv
proof (induction m arbitrary: s)
  case 0
  then show ?case by (simp add: stop_from_0)
next
  case (Suc m)
  have "length (cg_p s) = n" using Suc.prems by (simp add: cg_inv_def)
  then have "length (f (cg_p s)) = n" using shape by simp
  from cg_iteration_ok [of n s f, OF Suc.prems this]
  obtain s1 where s1: "cg_iteration f s = Inr s1" "cg_inv n s1"
      "cg_triple s1 = cg_recurrence f (cg_triple s)"
      "f_Ax_calls s1 = f_Ax_calls s @ [cg_p s]"
    by blast
  have rd: "cg_rdotr s1 = residual (cg_recurrence f (cg_triple s))"
    using cg_inv_residual [OF s1(2)] s1(3) by simp
  have p0: "snd (snd (cg_triple s)) = cg_p s" by (simp add: cg_triple_def)
  show ?case
  proof (cases "cg_rdotr s1 < tol")
    case True
    then show ?thesis
      using s1 rd p0 by (simp add: stop_from_Suc)
  next
    case False
    from Suc.IH [OF s1(2)] obtain s' where s':
      "cg_loop f tol m s1 = Inr s'" "cg_inv n s'"
      "cg_triple s' = (cg_recurrence f ^^ stop_from f tol m (cg_triple s1)) (cg_triple s1)"
      "f_Ax_calls s' = f_Ax_calls s1 @
         map (\<lambda>k. snd (snd ((cg_recurrence f ^^ k) (cg_triple s1))))
           [0..<stop_from f tol m (cg_triple s1)]"
      by blast
    show ?thesis
      using False s1 s' rd p0
      by (simp add: stop_from_Suc funpow_swap1 upt_0_Suc comp_def del: upt_Suc)
  qed
qed

text \<open>
  Claim C1. The solver starts from \<open>x = 0\<close> and \<open>r = p = b\<close>; each iteration is one step
  of the recurrence \<open>z = f(p)\<close>, \<open>\<alpha> = (r\<cdot>r)/(p\<cdot>z)\<close>, \<open>x += \<alpha>\<cdot>p\<close>, \<open>r -= \<alpha>\<cdot>z\<close>,
  \<open>\<beta> = r_new\<cdot>r_new / r_old\<cdot>r_old\<close>, \<open>p = r_new + \<beta>\<cdot>p\<close>; it makes \<open>cg_stop\<close> iterations,
  that is, it stops after the first iteration that leaves \<open>r\<cdot>r\<close> below \<open>residual_tol\<close> or
  after \<open>cg_iters\<close> iterations, whichever comes first, and returns the \<open>x\<close> of that
  iterate; \<open>f_Ax\<close> is called once per iteration, on the directions \<open>p\<close> of the
  recurrence, so at most \<open>cg_iters\<close> times. The defaults are 10 iterations and a tolerance
  of \<open>1e-10\<close>. This holds for every \<open>f_Ax\<close> that returns vectors of the size of \<open>b\<close>
  (otherwise \<open>torch.dot\<close> raises).
\<close>

theorem conjugate_gradient_recurrence:
  assumes "\<forall>u. length u = length b \<longrightarrow> length (f_Ax u) = length b"
  shows "\<exists>s. cg_run f_Ax b cg_iters residual_tol = Inr s \<and>
    conjugate_gradient f_Ax b cg_iters residual_tol =
      Inr (fst (cg_iterate f_Ax b (cg_stop f_Ax b residual_tol (nat cg_iters)))) \<and>
    f_Ax_calls s =
      map (\<lambda>k. snd (snd (cg_iterate f_Ax b k)))
        [0..<cg_stop f_Ax b residual_tol (nat cg_iters)] \<and>
    cg_stop f_Ax b residual_tol (nat cg_iters) \<le> nat cg_iters \<and>
    cg_iters_default = 10 \<and> residual_tol_default = Fin (1 / 10 ^ 10)"
proof -
  from cg_loop_ok [OF assms cg_inv_init, of residual_tol "nat cg_iters"]
  obtain s where s: "cg_loop f_Ax residual_tol (nat cg_iters) (cg_init b) = Inr s"
    "cg_triple s =
       (cg_recurrence f_Ax ^^ stop_from f_Ax residual_tol (nat cg_iters) (cg_triple (cg_init b)))
         (cg_triple (cg_init b))"
    "f_Ax_calls s = f_Ax_calls (cg_init b) @
       map (\<lambda>k. snd (snd ((cg_recurrence f_Ax ^^ k) (cg_triple (cg_init b)))))
         [0..<stop_from f_Ax residual_tol (nat cg_iters) (cg_triple (cg_init b))]"
    by blast
  have t0: "cg_triple (cg_init b) = (zeros_like b, b, b)"
    by (simp add: cg_triple_def cg_init_def)
  have x: "cg_x s = fst (cg_triple s)" by (simp add: cg_triple_def)
  have c0: "f_Ax_calls (cg_init b) = []" by (simp add: f_Ax_calls_def cg_init_def)
  show ?thesis
    using s stop_from_le [of f_Ax residual_tol "nat cg_iters" "cg_triple (cg_init b)"]
    by (simp add: cg_run_def conjugate_gradient_def cg_stop_from cg_iterate_def t0 x c0
        cg_iters_default_def residual_tol_default_def)
qed

text \<open>The system \<open>2\<cdot>x = 1\<close>: one iteration reaches \<open>x = 1/2\<close> with residual 0.\<close>

lemma cg_two_x_eq_one:
  "conjugate_gradient (smul (Fin 2)) [Fin 1] 2 residual_tol_default = Inr [Fin (1 / 2)]"
  by (simp add: conjugate_gradient_def cg_run_def cg_init_def eval_nat_numeral cg_iteration_def
      dot_def smul_def vadd_def vsub_def vdot_def fsum_def zeros_like_def
      residual_tol_default_def Let_def)

theorem conjugate_gradient_recurrence_witness:
  "fst (cg_iterate (smul (Fin 2)) [Fin 1]
     (cg_stop (smul (Fin 2)) [Fin 1] residual_tol_default (nat 2))) = [Fin (1 / 2)] \<and>
   cg_stop (smul (Fin 2)) [Fin 1] residual_tol_default (nat 2) \<le> nat 2"
  using conjugate_gradient_recurrence [of "[Fin 1]" "smul (Fin 2)" 2 residual_tol_default]
    cg_two_x_eq_one
  by (auto simp: smul_def)

section \<open>The first iteration of the solver is unconditional\<close>



lemma foldl_plus_zero_or_nan:
  assumes "\<forall>a\<in>set xs. a = Fin 0 \<or> a = NaN" and "acc = Fin 0 \<or> acc = NaN"
  shows "foldl (+) acc xs = Fin 0 \<or> foldl (+) acc xs = NaN"
  using assms
proof (induction xs arbitrary: acc)
  case Nil
  then show ?case by simp
next
  case (Cons a xs)
  have "acc + a = Fin 0 \<or> acc + a = NaN"
    using Cons.prems by auto
  with Cons show ?case by simp
qed

lemma foldl_plus_zero:
  assumes "\<forall>a\<in>set xs. a = Fin 0"
  shows "foldl (+) (Fin 0) xs = Fin 0"
  using assms by (induction xs) auto

lemma zero_times: "Fin 0 * a = Fin 0 \<or> Fin 0 * a = NaN"
  by (cases a) auto

lemma zero_times_finite: "is_finite a \<Longrightarrow> Fin 0 * a = Fin 0"
  by (cases a) (auto simp: is_finite_def)

lemma vdot_zero_left:
  assumes "\<forall>a\<in>set u. a = 0"
  shows "vdot u w = Fin 0 \<or> vdot u w = NaN"
  unfolding vdot_def fsum_def zero_fl_Fin
proof (rule foldl_plus_zero_or_nan)
  show "\<forall>c\<in>set (map2 (*) u w). c = Fin 0 \<or> c = NaN"
  proof
    fix c assume "c \<in> set (map2 (*) u w)"
    then obtain a d where ad: "(a, d) \<in> set (zip u w)" "c = a * d" by auto
    then have "a = Fin 0" using assms set_zip_leftD [OF ad(1)] by simp
    then show "c = Fin 0 \<or> c = NaN" using ad(2) zero_times [of d] by simp
  qed
qed simp

lemma vdot_zero_finite:
  assumes "\<forall>a\<in>set u. a = 0" and "\<forall>a\<in>set w. is_finite a"
  shows "vdot u w = Fin 0"
  unfolding vdot_def fsum_def zero_fl_Fin
proof (rule foldl_plus_zero)
  show "\<forall>c\<in>set (map2 (*) u w). c = Fin 0"
  proof
    fix c assume "c \<in> set (map2 (*) u w)"
    then obtain a d where ad: "(a, d) \<in> set (zip u w)" "c = a * d" by auto
    then have "a = Fin 0" "is_finite d"
      using assms set_zip_leftD [OF ad(1)] set_zip_rightD [OF ad(1)] by simp_all
    then show "c = Fin 0" using ad(2) zero_times_finite [of d] by simp
  qed
qed





section \<open>What the solver returns\<close>

lemma cg_loop_error:
  "cg_loop f tol n s = Inl e \<Longrightarrow> e = RuntimeError"
proof (induction n arbitrary: s)
  case 0
  then show ?case by simp
next
  case (Suc n)
  show ?case
  proof (cases "cg_iteration f s")
    case (Inl e')
    then have "e' = RuntimeError"
      by (auto simp: cg_iteration_def dot_def Let_def split: if_splits)
    then show ?thesis using Suc.prems Inl by simp
  next
    case (Inr s1)
    then show ?thesis using Suc by (auto split: if_splits)
  qed
qed

lemma vadd_all_nan:
  assumes "\<forall>a\<in>set u. a = NaN"
  shows "\<forall>a\<in>set (vadd u w). a = NaN"
  unfolding vadd_def
proof
  fix c assume "c \<in> set (map2 (+) u w)"
  then obtain a d where ad: "(a, d) \<in> set (zip u w)" "c = a + d" by auto
  then have "a = NaN" using assms set_zip_leftD [OF ad(1)] by simp
  then show "c = NaN" using ad(2) by simp
qed

lemma vadd_smul_nan:
  "\<forall>a\<in>set (vadd u (smul NaN w)). a = NaN"
  unfolding vadd_def
proof
  fix c assume "c \<in> set (map2 (+) u (smul NaN w))"
  then obtain a d where ad: "(a, d) \<in> set (zip u (smul NaN w))" "c = a + d" by auto
  have "d \<in> set (smul NaN w)" using set_zip_rightD [OF ad(1)] .
  then have "d = NaN" by (auto simp: smul_def)
  then show "c = NaN" using ad(2) by (cases a) auto
qed

lemma fst_cg_recurrence:
  "fst (cg_recurrence f t) =
     vadd (fst t) (smul (residual t / vdot (snd (snd t)) (f (snd (snd t)))) (snd (snd t)))"
  by (cases t) (simp add: cg_recurrence_def residual_def Let_def)

lemma cg_iterate_zero_nan:
  assumes "\<forall>a\<in>set b. a = 0"
  shows "\<forall>a\<in>set (fst (cg_iterate f b (Suc k))). a = NaN"
proof (induction k)
  case 0
  have fin: "\<forall>a\<in>set b. is_finite a" using assms by (auto simp: is_finite_def)
  have "vdot b b / vdot b (f b) = NaN"
    using vdot_zero_left [OF assms, of "f b"] vdot_zero_finite [OF assms fin] by auto
  then show ?case
    using vadd_smul_nan [of "zeros_like b" b]
    by (simp add: cg_iterate_def fst_cg_recurrence residual_def)
next
  case (Suc k)
  have "cg_iterate f b (Suc (Suc k)) = cg_recurrence f (cg_iterate f b (Suc k))"
    by (simp add: cg_iterate_def)
  then show ?case
    using vadd_all_nan [OF Suc] by (simp add: fst_cg_recurrence)
qed

lemma stop_from_pos: "0 < stop_from f tol (Suc n) t"
  by (simp add: stop_from_Suc)

lemma length_fst_cg_triple: "cg_inv n s \<Longrightarrow> length (fst (cg_triple s)) = n"
  by (simp add: cg_inv_def cg_triple_def)

lemma cg_result_ok:
  assumes shape: "\<forall>u. length u = length b \<longrightarrow> length (f_Ax u) = length b"
  shows "\<exists>x. conjugate_gradient f_Ax b cg_iters residual_tol = Inr x \<and>
         length x = length b \<and>
         x = fst (cg_iterate f_Ax b (cg_stop f_Ax b residual_tol (nat cg_iters))) \<and>
         (1 \<le> cg_iters \<and> (\<forall>a\<in>set b. a = 0) \<longrightarrow> (\<forall>a\<in>set x. a = NaN))"
proof -
  let ?k = "cg_stop f_Ax b residual_tol (nat cg_iters)"
  from cg_loop_ok [OF shape cg_inv_init, of residual_tol "nat cg_iters"]
  obtain s where s: "cg_loop f_Ax residual_tol (nat cg_iters) (cg_init b) = Inr s"
    "cg_inv (length b) s"
    "cg_triple s =
       (cg_recurrence f_Ax ^^ stop_from f_Ax residual_tol (nat cg_iters) (cg_triple (cg_init b)))
         (cg_triple (cg_init b))"
    by blast
  have t0: "cg_triple (cg_init b) = (zeros_like b, b, b)"
    by (simp add: cg_triple_def cg_init_def)
  have x: "cg_x s = fst (cg_triple s)" by (simp add: cg_triple_def)
  have res: "conjugate_gradient f_Ax b cg_iters residual_tol = Inr (cg_x s)"
    using s(1) by (simp add: conjugate_gradient_def cg_run_def)
  have it: "cg_x s = fst (cg_iterate f_Ax b ?k)"
    using s(3) by (simp add: x cg_stop_from cg_iterate_def t0)
  have len: "length (cg_x s) = length b"
    using length_fst_cg_triple [OF s(2)] x by simp
  have nan: "\<forall>a\<in>set (cg_x s). a = NaN" if pos: "1 \<le> cg_iters" and zb: "\<forall>a\<in>set b. a = 0"
  proof -
    obtain m where m: "nat cg_iters = Suc m"
      using pos by (cases "nat cg_iters") auto
    have "0 < ?k" by (simp add: cg_stop_from m stop_from_pos)
    then obtain j where j: "?k = Suc j"
      using gr0_implies_Suc by blast
    show ?thesis using cg_iterate_zero_nan [OF zb, of f_Ax j] it j by simp
  qed
  show ?thesis using res it len nan by blast
qed

text \<open>
  Claim C6, as the code has it. The solver raises only when \<open>f_Ax\<close> answers with a
  vector of another size (the \<open>RuntimeError\<close> of \<open>torch.dot\<close>), never for lack of
  convergence; otherwise it returns the iterate reached when the iteration budget ran
  out or the tolerance was met, a vector of the size of \<open>b\<close>. That vector need not be
  finite: for an all-zero \<open>b\<close> and at least one iteration every entry is NaN, whatever
  \<open>f_Ax\<close> is.
\<close>

theorem cg_returns_last_iterate:
  "(\<forall>e. conjugate_gradient f_Ax b cg_iters residual_tol = Inl e \<longrightarrow>
      e = RuntimeError \<and> (\<exists>u. length u = length b \<and> length (f_Ax u) \<noteq> length b)) \<and>
   ((\<forall>u. length u = length b \<longrightarrow> length (f_Ax u) = length b) \<longrightarrow>
      (\<exists>x. conjugate_gradient f_Ax b cg_iters residual_tol = Inr x \<and>
         length x = length b \<and>
         x = fst (cg_iterate f_Ax b (cg_stop f_Ax b residual_tol (nat cg_iters))) \<and>
         (1 \<le> cg_iters \<and> (\<forall>a\<in>set b. a = 0) \<longrightarrow> (\<forall>a\<in>set x. a = NaN))))"
proof -
  have err: "e = RuntimeError \<and> (\<exists>u. length u = length b \<and> length (f_Ax u) \<noteq> length b)"
    if e: "conjugate_gradient f_Ax b cg_iters residual_tol = Inl e" for e
  proof
    from e have "cg_loop f_Ax residual_tol (nat cg_iters) (cg_init b) = Inl e"
      by (auto simp: conjugate_gradient_def cg_run_def split: sum.splits)
    then show "e = RuntimeError" by (rule cg_loop_error)
    show "\<exists>u. length u = length b \<and> length (f_Ax u) \<noteq> length b"
    proof (rule ccontr)
      assume "\<not> ?thesis"
      then have "\<forall>u. length u = length b \<longrightarrow> length (f_Ax u) = length b" by blast
      from cg_result_ok [OF this, of cg_iters residual_tol] e show False by auto
    qed
  qed
  show ?thesis using cg_result_ok [of b f_Ax cg_iters residual_tol] err by blast
qed

text \<open>
  The claim as stated fails: with \<open>f_Ax(v) = 0.001\<cdot>v\<close> (a zero curvature matrix, which
  is singular, plus damping \<open>1e-3\<close>) and the target \<open>b = [0]\<close>, the solver with its
  default arguments returns \<open>[NaN]\<close>: the first step size is \<open>0/0\<close>.
\<close>

theorem cg_zero_target_nan:
  "conjugate_gradient (smul (Fin (1 / 1000))) [Fin 0] cg_iters_default residual_tol_default
     = Inr [NaN]"
proof -
  have "\<forall>u. length u = length [Fin 0] \<longrightarrow> length (smul (Fin (1 / 1000)) u) = length [Fin 0]"
    by simp
  from cg_result_ok [OF this, of cg_iters_default residual_tol_default]
  show ?thesis by (auto simp: length_Suc_conv cg_iters_default_def)
qed

theorem cg_returns_last_iterate_witness:
  "conjugate_gradient (smul (Fin 2)) [Fin 0, Fin 0] 2 residual_tol_default = Inr [NaN, NaN]"
  using cg_returns_last_iterate [of "smul (Fin 2)" "[Fin 0, Fin 0]" 2 residual_tol_default]
  by (auto simp: length_Suc_conv)

section \<open>The natural-gradient step\<close>

lemma vector_to_parameters_frame:
  "vector_to_parameters vec params st = Inr st' \<Longrightarrow> a \<notin> set params \<Longrightarrow> st' a = st a"
proof (induction params arbitrary: vec st)
  case Nil
  then show ?case by simp
next
  case (Cons param params)
  from Cons.prems(1) have rest:
    "vector_to_parameters (drop (length (st param)) vec) params
       (st(param := take (length (st param)) vec)) = Inr st'"
    by (simp add: Let_def split: if_splits)
  from Cons.IH [OF rest] Cons.prems(2) show ?case by simp
qed

lemma vector_to_parameters_ok:
  assumes "distinct params" and "length (parameters_to_vector params st) \<le> length vec"
  shows "\<exists>st'. vector_to_parameters vec params st = Inr st' \<and>
           parameters_to_vector params st' =
             take (length (parameters_to_vector params st)) vec"
  using assms
proof (induction params arbitrary: vec st)
  case Nil
  then show ?case by (simp add: parameters_to_vector_def)
next
  case (Cons param params)
  let ?n = "length (st param)"
  let ?st1 = "st(param := take ?n vec)"
  have notin: "param \<notin> set params" and dist: "distinct params"
    using Cons.prems(1) by simp_all
  have same: "map ?st1 params = map st params"
    using notin by (induction params) auto
  have tot: "length (parameters_to_vector (param # params) st) =
      ?n + length (parameters_to_vector params st)"
    by (simp add: parameters_to_vector_def)
  have len1: "length (parameters_to_vector params ?st1) \<le> length (drop ?n vec)"
    using Cons.prems(2) tot by (simp add: parameters_to_vector_def same)
  from Cons.IH [OF dist len1] obtain st' where st':
    "vector_to_parameters (drop ?n vec) params ?st1 = Inr st'"
    "parameters_to_vector params st' =
       take (length (parameters_to_vector params ?st1)) (drop ?n vec)"
    by blast
  have n_le: "?n \<le> length vec" using Cons.prems(2) tot by simp
  have run: "vector_to_parameters vec (param # params) st = Inr st'"
    using st'(1) n_le by (simp add: Let_def)
  have "st' param = ?st1 param"
    using vector_to_parameters_frame [OF st'(1) notin] .
  then have head: "st' param = take ?n vec" by simp
  have "parameters_to_vector (param # params) st' =
      take ?n vec @ take (length (parameters_to_vector params st)) (drop ?n vec)"
    using head st'(2) by (simp add: parameters_to_vector_def same)
  also have "\<dots> = take (?n + length (parameters_to_vector params st)) vec"
    by (simp add: take_add)
  finally show ?case using run tot by simp
qed

lemma length_vscale [simp]: "length (vscale u c) = length u"
  by (simp add: vscale_def)

lemma step_scale_zero:
  "0 \<le> d \<Longrightarrow> step_scale (Fin d) 0 = Fin (sqrt (2 * d * 10 ^ 8))"
  by (simp add: step_scale_def)

lemma cg_default_two_x_eq_one: "cg_default (smul (Fin 2)) [Fin 1] = Inr [Fin (1 / 2)]"
  by (simp add: cg_default_def cg_iters_default_def conjugate_gradient_def cg_run_def cg_init_def
      eval_nat_numeral cg_iteration_def dot_def smul_def vadd_def vsub_def vdot_def fsum_def
      zeros_like_def residual_tol_default_def Let_def)

lemma natural_step_example:
  "natural_gradient_step (\<lambda>st. [Fin 1]) (\<lambda>st. smul (Fin 2)) cg_default (Fin (1 / 100)) [0]
     ((\<lambda>_. [])(0 := [Fin 1], 1 := [Fin 5]))
   = Inr ((\<lambda>_. [])(1 := [Fin 5], 0 := [Fin (1 - sqrt (2000000 / 50000001) / 2)]))"
  by (simp add: natural_gradient_step_def cg_default_two_x_eq_one dot_def vdot_def fsum_def
      step_scale_def vscale_def tsub_def vsub_def parameters_to_vector_def Let_def)

text \<open>
  Claim C3. When the solver returns the direction \<open>x\<close> for the policy gradient \<open>g\<close>
  (a vector with one entry per policy parameter, as \<open>g\<close> is), the step succeeds and the
  policy's parameter vector afterwards is \<open>\<theta> - s\<cdot>x\<close> entry by entry, with
  \<open>s = sqrt(2\<cdot>delta / (g\<cdot>x + 1e-8))\<close>. Nothing bounds or searches over \<open>s\<close>: the equation
  holds for every \<open>g\<close>, \<open>x\<close> and \<open>delta\<close>, and at \<open>g\<cdot>x = 0\<close> the scale is
  \<open>sqrt(2\<cdot>delta\<cdot>10^8)\<close>, ten thousand times \<open>sqrt(2\<cdot>delta)\<close> (in exact arithmetic).
  The parameters of a model are distinct tensors.
\<close>

theorem natural_step_update:
  assumes "distinct policy"
    and "length (flat_grad_pol_loss st) = length (parameters_to_vector policy st)"
    and "solver (fisher_vec_prod st) (flat_grad_pol_loss st) = Inr x"
    and "length x = length (flat_grad_pol_loss st)"
  shows "\<exists>st'. natural_gradient_step flat_grad_pol_loss fisher_vec_prod solver delta policy st
             = Inr st' \<and>
           parameters_to_vector policy st' =
             vsub (parameters_to_vector policy st)
               (vscale x (fsqrt (Fin 2 * delta /
                  (vdot (flat_grad_pol_loss st) x + Fin (1 / 10 ^ 8))))) \<and>
           (\<forall>d. 0 \<le> d \<longrightarrow> step_scale (Fin d) 0 = Fin (sqrt (2 * d * 10 ^ 8)))"
proof -
  let ?g = "flat_grad_pol_loss st"
  let ?theta = "parameters_to_vector policy st"
  let ?new = "vsub ?theta (vscale x (step_scale delta (vdot ?g x)))"
  have d: "dot ?g x = Inr (vdot ?g x)" using assms(4) by (simp add: dot_def)
  have sub: "tsub ?theta (vscale x (step_scale delta (vdot ?g x))) = Inr ?new"
    using assms(2,4) by (simp add: tsub_def)
  have len: "length ?theta \<le> length ?new" using assms(2,4) by simp
  from vector_to_parameters_ok [OF assms(1) len] obtain st' where st':
    "vector_to_parameters ?new policy st = Inr st'"
    "parameters_to_vector policy st' = take (length ?theta) ?new"
    by blast
  have "take (length ?theta) ?new = ?new" using assms(2,4) by simp
  then have "natural_gradient_step flat_grad_pol_loss fisher_vec_prod solver delta policy st
      = Inr st' \<and>
    parameters_to_vector policy st' =
      vsub ?theta (vscale x (fsqrt (Fin 2 * delta / (vdot ?g x + Fin (1 / 10 ^ 8)))))"
    using st' d sub assms(3)
    by (simp add: natural_gradient_step_def Let_def step_scale_def)
  then show ?thesis using step_scale_zero by blast
qed

theorem natural_step_update_witness:
  "\<exists>st'. natural_gradient_step (\<lambda>st. [Fin 1]) (\<lambda>st. smul (Fin 2)) cg_default (Fin (1 / 100)) [0]
     ((\<lambda>_. [])(0 := [Fin 1], 1 := [Fin 5])) = Inr st' \<and>
     parameters_to_vector [0] st' =
       [Fin 1 - Fin (1 / 2) * fsqrt (Fin 2 * Fin (1 / 100) / (Fin (1 / 2) + Fin (1 / 10 ^ 8)))]"
  using natural_step_update [of "[0]" "\<lambda>st. [Fin 1]" "(\<lambda>_. [])(0 := [Fin 1], 1 := [Fin 5])"
      cg_default "\<lambda>st. smul (Fin 2)" "[Fin (1 / 2)]" "Fin (1 / 100)"]
  by (auto simp: cg_default_two_x_eq_one parameters_to_vector_def vdot_def fsum_def vsub_def
      vscale_def)

text \<open>
  Claim C8. The step writes the store only through \<open>vector_to_parameters\<close> on the
  policy's parameters: every tensor that is not a parameter of the policy is unchanged,
  so the value function's parameters, which are other tensors, are as before the step.
\<close>

theorem natural_step_frame:
  assumes "natural_gradient_step flat_grad_pol_loss fisher_vec_prod solver delta policy st
             = Inr st'"
  shows "(\<forall>a. a \<notin> set policy \<longrightarrow> st' a = st a) \<and>
         (set val_fn \<inter> set policy = {} \<longrightarrow>
            parameters_to_vector val_fn st' = parameters_to_vector val_fn st)"
proof -
  from assms obtain new_params where "vector_to_parameters new_params policy st = Inr st'"
    by (auto simp: natural_gradient_step_def Let_def split: sum.splits)
  then have frame: "\<forall>a. a \<notin> set policy \<longrightarrow> st' a = st a"
    using vector_to_parameters_frame by blast
  have "parameters_to_vector val_fn st' = parameters_to_vector val_fn st"
    if disj: "set val_fn \<inter> set policy = {}"
  proof -
    have "map st' val_fn = map st val_fn"
      using disj frame by (intro map_cong) auto
    then show ?thesis by (simp only: parameters_to_vector_def)
  qed
  then show ?thesis using frame by blast
qed

theorem natural_step_frame_witness:
  "\<exists>st'. natural_gradient_step (\<lambda>st. [Fin 1]) (\<lambda>st. smul (Fin 2)) cg_default (Fin (1 / 100)) [0]
     ((\<lambda>_. [])(0 := [Fin 1], 1 := [Fin 5])) = Inr st' \<and>
     parameters_to_vector [1] st' = [Fin 5]"
proof -
  from natural_step_frame [OF natural_step_example, of "[1]"] natural_step_example
  show ?thesis
    by (simp add: parameters_to_vector_def)
qed

section \<open>The explained-variance diagnostic\<close>

lemma not_negative_square: "not_negative (a * a)"
  by (cases a) (simp_all add: not_negative_def)

lemma not_negative_plus: "not_negative a \<Longrightarrow> not_negative c \<Longrightarrow> not_negative (a + c)"
  by (cases a; cases c) (simp_all add: not_negative_def)

lemma not_negative_foldl:
  "not_negative acc \<Longrightarrow> \<forall>c\<in>set xs. not_negative c \<Longrightarrow> not_negative (foldl (+) acc xs)"
  by (induction xs arbitrary: acc) (simp_all add: not_negative_plus)

lemma not_negative_divide_nat: "not_negative a \<Longrightarrow> not_negative (a / Fin (real n))"
  by (cases a) (simp_all add: not_negative_def)

lemma var_not_negative: "not_negative (var ys)"
proof -
  have z: "not_negative (0::fl)" by (simp add: not_negative_def)
  have sq: "\<forall>c\<in>set (map (\<lambda>y. (y - mean ys) * (y - mean ys)) ys). not_negative c"
    by (auto simp: not_negative_square)
  show ?thesis
    unfolding var_def fsum_def
    by (rule not_negative_divide_nat, rule not_negative_foldl [OF z sq])
qed

lemma not_negative_plus_eps: "not_negative a \<Longrightarrow> a + Fin (1 / 10 ^ 8) \<noteq> Fin 0"
  by (cases a) (simp_all add: not_negative_def)

lemma fl_le_not_less: "(a::fl) \<le> c \<Longrightarrow> \<not> c < a"
  by (cases a; cases c) simp_all

lemma isclose_zero: "isclose a 0 = (\<exists>r. a = Fin r \<and> \<bar>r\<bar> \<le> 1 / 10 ^ 8)"
  by (cases a) simp_all

text \<open>
  Claim C10. \<open>explained_variance_1d\<close> asserts that both inputs are one-dimensional.
  On one-dimensional inputs it returns exactly 1 when the variance of \<open>y\<close> is close to
  zero and the variance of \<open>ypred\<close> is at most \<open>1e-8\<close>, exactly 0 when the variance of
  \<open>y\<close> is close to zero and the variance of \<open>ypred\<close> exceeds \<open>1e-8\<close>, and otherwise
  \<open>1 - Var(y - ypred)/(Var(y) + 1e-8)\<close>, where \<open>y - ypred\<close> is the difference of the two
  tensors (which raises when their sizes cannot be broadcast); the division never has
  a zero divisor, a variance not being negative. Close to zero is \<open>np.isclose\<close>: finite
  and of absolute value at most \<open>1e-8\<close>.
\<close>

theorem explained_variance_1d_cases:
  "(\<not> (dim y = 1 \<and> dim ypred = 1) \<longrightarrow> explained_variance_1d ypred y = Inl AssertionError) \<and>
   (dim y = 1 \<and> dim ypred = 1 \<longrightarrow>
      (isclose (var (elems y)) 0 \<and> var (elems ypred) \<le> Fin (1 / 10 ^ 8) \<longrightarrow>
         explained_variance_1d ypred y = Inr 1) \<and>
      (isclose (var (elems y)) 0 \<and> Fin (1 / 10 ^ 8) < var (elems ypred) \<longrightarrow>
         explained_variance_1d ypred y = Inr 0) \<and>
      (\<not> isclose (var (elems y)) 0 \<longrightarrow>
         explained_variance_1d ypred y =
           (case tsub (elems y) (elems ypred) of
              Inl e \<Rightarrow> Inl e
            | Inr d \<Rightarrow> Inr (1 - var d / (var (elems y) + Fin (1 / 10 ^ 8)))))) \<and>
   isclose (var (elems y)) 0 = (\<exists>r. var (elems y) = Fin r \<and> \<bar>r\<bar> \<le> 1 / 10 ^ 8)"
proof -
  have nz: "var (elems y) + Fin (1 / 10 ^ 8) \<noteq> Fin 0"
    using not_negative_plus_eps [OF var_not_negative] .
  have a: "\<not> (dim y = 1 \<and> dim ypred = 1) \<longrightarrow> explained_variance_1d ypred y = Inl AssertionError"
    by (simp add: explained_variance_1d_def)
  have b: "explained_variance_1d ypred y = Inr 1"
    if "dim y = 1 \<and> dim ypred = 1" "isclose (var (elems y)) 0"
      "var (elems ypred) \<le> Fin (1 / 10 ^ 8)"
    using that fl_le_not_less [OF that(3)] by (simp add: explained_variance_1d_def Let_def)
  have c: "explained_variance_1d ypred y = Inr 0"
    if "dim y = 1 \<and> dim ypred = 1" "isclose (var (elems y)) 0"
      "Fin (1 / 10 ^ 8) < var (elems ypred)"
    using that by (simp add: explained_variance_1d_def Let_def)
  have d: "explained_variance_1d ypred y =
           (case tsub (elems y) (elems ypred) of
              Inl e \<Rightarrow> Inl e
            | Inr d \<Rightarrow> Inr (1 - var d / (var (elems y) + Fin (1 / 10 ^ 8))))"
    if "dim y = 1 \<and> dim ypred = 1" "\<not> isclose (var (elems y)) 0"
    using that nz
    by (simp add: explained_variance_1d_def Let_def py_div_def split: sum.splits)
  show ?thesis using a b c d isclose_zero [of "var (elems y)"] by blast
qed

theorem explained_variance_1d_cases_witness:
  "explained_variance_1d (Tensor [2] [Fin 1, Fin 1]) (Tensor [2] [Fin 1, Fin 1]) = Inr 1 \<and>
   explained_variance_1d (Tensor [2] [Fin 0, Fin 1]) (Tensor [2] [Fin 0, Fin 2]) =
     Inr (Fin (1 - (1 / 2) / (2 + 1 / 10 ^ 8))) \<and>
   explained_variance_1d (Tensor [2, 1] [Fin 1, Fin 1]) (Tensor [2] [Fin 1, Fin 1]) =
     Inl AssertionError"
  using explained_variance_1d_cases [of "Tensor [2] [Fin 1, Fin 1]" "Tensor [2] [Fin 1, Fin 1]"]
    explained_variance_1d_cases [of "Tensor [2] [Fin 0, Fin 2]" "Tensor [2] [Fin 0, Fin 1]"]
    explained_variance_1d_cases [of "Tensor [2] [Fin 1, Fin 1]" "Tensor [2, 1] [Fin 1, Fin 1]"]
  by (simp add: dim_def var_def mean_def fsum_def tsub_def vsub_def)

section \<open>The off-policy loop: one pass\<close>


lemma length_mask_dones [simp]: "length (mask_dones args ep ds) = length ds"
  by (simp add: mask_dones_def)






section \<open>The off-policy loop: the done flags stored\<close>





section \<open>The off-policy loop: the discount is not validated\<close>











end
